theory Spec2Isabelle
  imports Main
begin

section \<open>The documentation generator (generate-docs.js)\<close>

text \<open>
  A JavaScript string is modelled as a \<^typ>\<open>string\<close>, one element per code unit,
  so that \<^const>\<open>length\<close> is the \<^verbatim>\<open>.length\<close> the script compares with its
  thresholds. Console output is not modelled. Every call that leaves the process
  (file system, child process, chat-completion client) is answered by a field of
  the environment record and is written to a trace of effects.
\<close>

subsection \<open>Values, property lookup on object literals, template literals\<close>

text \<open>
  \<^verbatim>\<open>prompts\<close> and \<^verbatim>\<open>langMap\<close> are object literals, and \<^verbatim>\<open>obj[key]\<close> on an
  object literal also finds the properties that the literal inherits from
  \<^verbatim>\<open>Object.prototype\<close>. The values that such a lookup can produce here are
  strings, \<^verbatim>\<open>undefined\<close>, the built-in functions of \<^verbatim>\<open>Object.prototype\<close> and
  (under the key \<^verbatim>\<open>__proto__\<close>) \<^verbatim>\<open>Object.prototype\<close> itself.
\<close>

datatype jsval = Undefined | Str string | NativeFunction string | ObjectPrototype

fun truthy :: "jsval \<Rightarrow> bool" where
  "truthy Undefined = False"
| "truthy (Str s) = (s \<noteq> [])"
| "truthy (NativeFunction n) = True"
| "truthy ObjectPrototype = True"

text \<open>The operator \<^verbatim>\<open>a || b\<close>.\<close>

definition js_or :: "jsval \<Rightarrow> jsval \<Rightarrow> jsval" where
  "js_or a b = (if truthy a then a else b)"

text \<open>What a template literal \<^verbatim>\<open>${v}\<close> inserts for a value (Node prints built-ins so).\<close>

fun template :: "jsval \<Rightarrow> string" where
  "template Undefined = ''undefined''"
| "template (Str s) = s"
| "template (NativeFunction n) = ''function '' @ n @ ''() { [native code] }''"
| "template ObjectPrototype = ''[object Object]''"

text \<open>The properties every object literal inherits.\<close>

definition object_prototype_names :: "string list" where
  "object_prototype_names =
     [''__defineGetter__'', ''__defineSetter__'', ''hasOwnProperty'',
      ''__lookupGetter__'', ''__lookupSetter__'', ''isPrototypeOf'',
      ''propertyIsEnumerable'', ''toString'', ''valueOf'', ''toLocaleString'']"

definition object_prototype_get :: "string \<Rightarrow> jsval" where
  "object_prototype_get key =
     (if key = ''constructor'' then NativeFunction ''Object''
      else if key = ''__proto__'' then ObjectPrototype
      else if key \<in> set object_prototype_names then NativeFunction key
      else Undefined)"

text \<open>\<^verbatim>\<open>obj[key]\<close> for an object literal with the given own properties.\<close>

definition js_get :: "(string \<times> string) list \<Rightarrow> string \<Rightarrow> jsval" where
  "js_get own key =
     (case map_of own key of Some v \<Rightarrow> Str v | None \<Rightarrow> object_prototype_get key)"

text \<open>\<^verbatim>\<open>process.env.NAME || dflt\<close>: an unset or empty variable gives the default.\<close>

definition env_or :: "string option \<Rightarrow> string \<Rightarrow> string" where
  "env_or v dflt = (case v of None \<Rightarrow> dflt | Some s \<Rightarrow> if s = [] then dflt else s)"

text \<open>Decimal rendering of a length inside a template literal.\<close>

fun string_of_nat :: "nat \<Rightarrow> string" where
  "string_of_nat n =
     (if n < 10 then [''0123456789'' ! n]
      else string_of_nat (n div 10) @ [''0123456789'' ! (n mod 10)])"

declare string_of_nat.simps [simp del]

subsection \<open>String.prototype.split, trim and the regular-expression replace\<close>

text \<open>\<^verbatim>\<open>s.split(sep)\<close> for a one-character separator; the empty string gives \<^verbatim>\<open>['']\<close>.\<close>

fun split :: "char \<Rightarrow> string \<Rightarrow> string list" where
  "split sep [] = [[]]"
| "split sep (c # cs) =
     (if c = sep then [] # split sep cs
      else (case split sep cs of [] \<Rightarrow> [[c]] | x # xs \<Rightarrow> (c # x) # xs))"

definition js_whitespace :: "char \<Rightarrow> bool" where
  "js_whitespace c = (c \<in> set [CHR 0x09, CHR 0x0A, CHR 0x0B, CHR 0x0C, CHR 0x0D, CHR 0x20, CHR 0xA0])"

definition trim :: "string \<Rightarrow> string" where
  "trim s = rev (dropWhile js_whitespace (rev (dropWhile js_whitespace s)))"

text \<open>
  \<^verbatim>\<open>file.replace(/\.(e1|e2|...)$/, '.md')\<close>: the string is scanned from the left for
  the first position where a dot followed by one of the alternatives reaches the
  end of the string; that match is replaced. Without a match the string is
  returned as it is.
\<close>

fun replace_ext :: "string list \<Rightarrow> string \<Rightarrow> string" where
  "replace_ext alts [] = []"
| "replace_ext alts (c # cs) =
     (if c = CHR ''.'' \<and> cs \<in> set alts then ''.md'' else c # replace_ext alts cs)"

subsection \<open>Node's path module (POSIX flavour)\<close>

text \<open>
  \<^verbatim>\<open>path.join\<close>, \<^verbatim>\<open>path.dirname\<close> and \<^verbatim>\<open>path.extname\<close> belong to Node, not to the
  repository; they are modelled after Node's \<^verbatim>\<open>path.posix\<close>. \<^verbatim>\<open>path.join\<close> glues
  its non-empty arguments with a slash and normalises the result: empty and
  \<^verbatim>\<open>.\<close> segments disappear, a \<^verbatim>\<open>..\<close> segment removes the segment before it.
\<close>

fun join_with :: "string \<Rightarrow> string list \<Rightarrow> string" where
  "join_with sep [] = []"
| "join_with sep [x] = x"
| "join_with sep (x # y # ys) = x @ sep @ join_with sep (y # ys)"

text \<open>The segments kept so far are held in reverse order.\<close>

fun normalize_segments :: "bool \<Rightarrow> string list \<Rightarrow> string list \<Rightarrow> string list" where
  "normalize_segments allowAboveRoot kept [] = rev kept"
| "normalize_segments allowAboveRoot kept (s # ss) =
     (if s = [] \<or> s = ''.'' then normalize_segments allowAboveRoot kept ss
      else if s = ''..'' then
        (case kept of
           [] \<Rightarrow> normalize_segments allowAboveRoot (if allowAboveRoot then [''..''] else []) ss
         | k # ks \<Rightarrow>
             if k = ''..'' then normalize_segments allowAboveRoot (if allowAboveRoot then ''..'' # kept else kept) ss
             else normalize_segments allowAboveRoot ks ss)
      else normalize_segments allowAboveRoot (s # kept) ss)"

definition path_normalize :: "string \<Rightarrow> string" where
  "path_normalize p =
     (if p = [] then ''.''
      else
        let isAbsolute = (hd p = CHR ''/'');
            trailingSeparator = (last p = CHR ''/'');
            q = join_with ''/'' (normalize_segments (\<not> isAbsolute) [] (split CHR ''/'' p))
        in if q = [] then (if isAbsolute then ''/'' else if trailingSeparator then ''./'' else ''.'')
           else (if isAbsolute then ''/'' else []) @ q @ (if trailingSeparator then ''/'' else []))"

definition path_join :: "string list \<Rightarrow> string" where
  "path_join args =
     (let parts = filter (\<lambda>a. a \<noteq> []) args
      in if parts = [] then ''.'' else path_normalize (join_with ''/'' parts))"

definition path_dirname :: "string \<Rightarrow> string" where
  "path_dirname p =
     (if p = [] then ''.''
      else
        let hasRoot = (hd p = CHR ''/'');
            r = dropWhile (\<lambda>c. c \<noteq> CHR ''/'') (dropWhile (\<lambda>c. c = CHR ''/'') (rev (tl p)))
        in if r = [] then (if hasRoot then ''/'' else ''.'')
           else if hasRoot \<and> length r = 1 then ''//''
           else take (length r) p)"

definition path_extname :: "string \<Rightarrow> string" where
  "path_extname p =
     (let base = rev (takeWhile (\<lambda>c. c \<noteq> CHR ''/'') (dropWhile (\<lambda>c. c = CHR ''/'') (rev p)));
          ext = CHR ''.'' # rev (takeWhile (\<lambda>c. c \<noteq> CHR ''.'') (rev base))
      in if CHR ''.'' \<notin> set base then []
         else if length ext = length base then []
         else if base = ''..'' then []
         else ext)"

subsection \<open>Environment and effects\<close>

record message =
  role :: string
  content :: string

record request =
  model :: string
  messages :: "message list"
  max_completion_tokens :: nat

text \<open>
  What \<^verbatim>\<open>client.chat.completions.create\<close> does: it throws, or it resolves to a
  result whose \<^verbatim>\<open>choices\<close> are given by the \<^verbatim>\<open>message.content\<close> of each choice
  (\<^const>\<open>None\<close> when the content is null or missing); a result without a
  \<^verbatim>\<open>choices\<close> array is the empty list, which the script treats alike.
\<close>

datatype api_outcome = ApiError string | ApiResult "string option list"

datatype effect =
    ExecSync string
  | FsAccess string
  | FsReadFile string
  | FsMkdir string
  | FsWriteFile string string
  | Glob "string list"
  | ChatCreate request

text \<open>
  A failing call carries the \<^verbatim>\<open>message\<close> of the error thrown. The oracles of the
  calls made inside the processing loop see the trace so far, so their answers
  may change from call to call. The file-existence check, the diff and the glob
  run before the script writes any file and are answered from one snapshot.
\<close>

record env =
  AZURE_OPENAI_DEPLOYMENT :: "string option"
  DOC_TYPE :: "string option"
  FORCE_ALL :: "string option"
  execSync :: "string \<Rightarrow> string + string"
  fs_access :: "string \<Rightarrow> bool"
  glob :: "string list \<Rightarrow> string + string list"
  fs_readFile :: "effect list \<Rightarrow> string \<Rightarrow> string + string"
  fs_mkdir :: "effect list \<Rightarrow> string \<Rightarrow> string option"
  fs_writeFile :: "effect list \<Rightarrow> string \<Rightarrow> string \<Rightarrow> string option"
  chat_create :: "effect list \<Rightarrow> request \<Rightarrow> api_outcome"
  now_iso :: string

definition deployment :: "env \<Rightarrow> string" where
  "deployment e = env_or (AZURE_OPENAI_DEPLOYMENT e) ''gpt-4''"

definition docType :: "env \<Rightarrow> string" where
  "docType e = env_or (DOC_TYPE e) ''all''"

definition forceAll :: "env \<Rightarrow> bool" where
  "forceAll e = (FORCE_ALL e = Some ''true'')"

subsection \<open>Prompts and language names\<close>

definition prompts :: "(string \<times> string) list" where
  "prompts =
     [(''api'',
       ''Analyze this code and generate comprehensive API documentation in Markdown format. Include:\<newline>- Function/method signatures\<newline>- Parameters and return types\<newline>- Usage examples\<newline>- Error handling''),
      (''codeComments'',
       ''Add detailed inline comments to this code explaining:\<newline>- What the code does\<newline>- Why specific approaches were chosen\<newline>- Any edge cases or assumptions\<newline>- Complex logic explanations''),
      (''readme'',
       ''Generate a README.md section for this code including:\<newline>- Overview and purpose\<newline>- Key features\<newline>- Usage examples\<newline>- Installation/setup if applicable''),
      (''architecture'',
       ''Analyze this code and describe:\<newline>- Overall architecture and design patterns\<newline>- Component relationships\<newline>- Data flow\<newline>- Key design decisions'')]"

definition langMap :: "(string \<times> string) list" where
  "langMap =
     [(''.js'', ''javascript''), (''.ts'', ''typescript''), (''.py'', ''python''),
      (''.java'', ''java''), (''.cs'', ''csharp''), (''.go'', ''go''), (''.rs'', ''rust''),
      (''.cpp'', ''cpp''), (''.c'', ''c''), (''.rb'', ''ruby''), (''.php'', ''php''),
      (''.ps1'', ''powershell''), (''.psm1'', ''powershell''), (''.sh'', ''bash''),
      (''.bash'', ''bash''), (''.kt'', ''kotlin''), (''.swift'', ''swift''),
      (''.yml'', ''yaml''), (''.yaml'', ''yaml'')]"

definition getLanguage :: "string \<Rightarrow> jsval" where
  "getLanguage ext = js_or (js_get langMap ext) (Str ''plaintext'')"

subsection \<open>analyzeCode\<close>

text \<open>The slot \<^verbatim>\<open>${prompts[docType] || prompts.api}\<close> of the user message.\<close>

definition prompt_slot :: "env \<Rightarrow> jsval" where
  "prompt_slot e = js_or (js_get prompts (docType e)) (js_get prompts ''api'')"

definition user_content :: "env \<Rightarrow> string \<Rightarrow> string \<Rightarrow> string" where
  "user_content e filePath code =
     (let language = getLanguage (path_extname filePath)
      in ''File: '' @ filePath @ ''\<newline>Language: '' @ template language @ ''\<newline>\<newline>''
         @ template (prompt_slot e) @ ''\<newline>\<newline>Code:\<newline>```'' @ template language
         @ ''\<newline>'' @ code @ ''\<newline>```'')"

definition build_messages :: "env \<Rightarrow> string \<Rightarrow> string \<Rightarrow> message list" where
  "build_messages e filePath code =
     [\<lparr>role = ''system'',
       content = ''You are an expert technical writer who creates clear, comprehensive documentation for code.''\<rparr>,
      \<lparr>role = ''user'', content = user_content e filePath code\<rparr>]"

definition build_request :: "env \<Rightarrow> string \<Rightarrow> string \<Rightarrow> request" where
  "build_request e filePath code =
     \<lparr>model = deployment e, messages = build_messages e filePath code,
      max_completion_tokens = 16000\<rparr>"

text \<open>
  \<^verbatim>\<open>analyzeCode\<close> returns the content of the first choice, or null when the call
  throws or the result has no choice. The second component is the trace extended
  by the call.
\<close>

definition analyzeCode :: "env \<Rightarrow> effect list \<Rightarrow> string \<Rightarrow> string \<Rightarrow> string option \<times> effect list" where
  "analyzeCode e h filePath code =
     (let req = build_request e filePath code
      in (case chat_create e h req of
            ApiError msg \<Rightarrow> None
          | ApiResult choices \<Rightarrow> (case choices of [] \<Rightarrow> None | c # _ \<Rightarrow> c),
          h @ [ChatCreate req]))"

subsection \<open>getChangedFiles and getFilesNeedingDocumentation\<close>

definition git_diff_command :: string where
  "git_diff_command = ''git diff --name-only HEAD~1 HEAD''"

definition getChangedFiles :: "env \<Rightarrow> string set" where
  "getChangedFiles e =
     (case execSync e git_diff_command of
        Inr output \<Rightarrow> set (filter (\<lambda>f. f \<noteq> []) (split CHR 0x0A (trim output)))
      | Inl msg \<Rightarrow> {})"

record file_item =
  "file" :: string

record entry = file_item +
  reason :: string

text \<open>The alternatives of the regular expression in line 147.\<close>

definition select_alternatives :: "string list" where
  "select_alternatives =
     [''js'', ''ts'', ''py'', ''java'', ''go'', ''rs'', ''ps1'', ''psm1'', ''sh'', ''bash'',
      ''cpp'', ''c'', ''cs'', ''rb'', ''php'', ''kt'', ''swift'', ''yml'', ''yaml'']"

definition select_docPath :: "string \<Rightarrow> string" where
  "select_docPath f = path_join [''Documentation'', replace_ext select_alternatives f]"

text \<open>
  The loop over \<^verbatim>\<open>allSourceFiles\<close>: the accumulator holds \<^verbatim>\<open>filesToProcess\<close> and
  the trace of the \<^verbatim>\<open>fs.access\<close> calls.
\<close>

fun needing_loop :: "env \<Rightarrow> string set \<Rightarrow> string list \<Rightarrow> entry list \<times> effect list \<Rightarrow> entry list \<times> effect list" where
  "needing_loop e changedFiles [] acc = acc"
| "needing_loop e changedFiles (f # fs) (filesToProcess, tr) =
     (let wasChanged = (f \<in> changedFiles);
          docPath = select_docPath f;
          docExists = fs_access e docPath
      in needing_loop e changedFiles fs
           (if wasChanged \<or> \<not> docExists
            then filesToProcess @ [\<lparr>file = f, reason = (if wasChanged then ''changed'' else ''missing-docs'')\<rparr>]
            else filesToProcess,
            tr @ [FsAccess docPath]))"

definition getFilesNeedingDocumentation :: "env \<Rightarrow> string list \<Rightarrow> entry list \<times> effect list" where
  "getFilesNeedingDocumentation e allSourceFiles =
     (if forceAll e then (map (\<lambda>f. \<lparr>file = f, reason = ''forced''\<rparr>) allSourceFiles, [])
      else needing_loop e (getChangedFiles e) allSourceFiles ([], [ExecSync git_diff_command]))"

subsection \<open>findSourceFiles\<close>

definition patterns :: "string list" where
  "patterns =
     [''**/*.{js,ts,py,java,go,rs,ps1,psm1,sh,bash,cpp,c,cs,rb,php,kt,swift,yml,yaml}'',
      ''!**/node_modules/**'', ''!**/dist/**'', ''!**/build/**'', ''!**/vendor/**'',
      ''!**/.git/**'', ''!**/*.test.*'', ''!**/*.spec.*'', ''!**/Documentation/**'']"

definition findSourceFiles :: "env \<Rightarrow> (string + string list) \<times> effect list" where
  "findSourceFiles e = (glob e patterns, [Glob patterns])"

subsection \<open>The processing loop of generateDocumentation\<close>

record result = file_item +
  docPath :: "string option"
  success :: bool
  error :: "string option"

definition success_record :: "string \<Rightarrow> string \<Rightarrow> result" where
  "success_record f p = \<lparr>file = f, docPath = Some p, success = True, error = None\<rparr>"

definition failure_record :: "string \<Rightarrow> string \<Rightarrow> result" where
  "failure_record f msg = \<lparr>file = f, docPath = None, success = False, error = Some msg\<rparr>"

text \<open>The alternatives of the regular expression in line 258.\<close>

definition write_alternatives :: "string list" where
  "write_alternatives =
     [''js'', ''ts'', ''py'', ''java'', ''go'', ''rs'', ''ps1'', ''psm1'', ''sh'', ''bash'',
      ''cpp'', ''c'', ''cs'', ''rb'', ''php'', ''kt'', ''swift'', ''yml'', ''yaml'']"

definition write_docPath :: "string \<Rightarrow> string" where
  "write_docPath f = path_join [''Documentation'', replace_ext write_alternatives f]"

text \<open>
  Storing a truthy \<^verbatim>\<open>documentation\<close>: the directory is made, the file is written
  and a success is recorded; an error thrown by either call reaches the
  \<^verbatim>\<open>catch\<close> of the loop body and is recorded as a failure.
\<close>

definition store_documentation :: "env \<Rightarrow> string \<Rightarrow> string \<Rightarrow> result list \<times> effect list \<Rightarrow> result list \<times> effect list" where
  "store_documentation e f documentation st =
     (case st of (results, h) \<Rightarrow>
        let p = write_docPath f;
            h1 = h @ [FsMkdir (path_dirname p)]
        in (case fs_mkdir e h (path_dirname p) of
              Some msg \<Rightarrow> (results @ [failure_record f msg], h1)
            | None \<Rightarrow>
                (case fs_writeFile e h1 p documentation of
                   Some msg \<Rightarrow> (results @ [failure_record f msg], h1 @ [FsWriteFile p documentation])
                 | None \<Rightarrow> (results @ [success_record f p], h1 @ [FsWriteFile p documentation]))))"

text \<open>
  One iteration of \<^verbatim>\<open>for (const { file, reason } of filesToProcess)\<close>. The two
  \<^verbatim>\<open>continue\<close> statements leave the iteration with the results list as it was.
\<close>

definition processFile :: "env \<Rightarrow> entry \<Rightarrow> result list \<times> effect list \<Rightarrow> result list \<times> effect list" where
  "processFile e item st =
     (case st of (results, h) \<Rightarrow>
        let f = file item;
            h1 = h @ [FsReadFile f]
        in (case fs_readFile e h f of
              Inl msg \<Rightarrow> (results @ [failure_record f msg], h1)
            | Inr text \<Rightarrow>
                if length text < 10 then (results, h1)
                else if length text > 200000 then (results, h1)
                else
                  let processContent = (if length text > 100000 then take 100000 text else text);
                      (documentation, h2) = analyzeCode e h1 f processContent
                  in (case documentation of
                        None \<Rightarrow> (results @ [failure_record f ''No documentation generated''], h2)
                      | Some d \<Rightarrow>
                          if d = [] then (results @ [failure_record f ''No documentation generated''], h2)
                          else store_documentation e f d (results, h2))))"

fun processFiles :: "env \<Rightarrow> entry list \<Rightarrow> result list \<times> effect list \<Rightarrow> result list \<times> effect list" where
  "processFiles e [] st = st"
| "processFiles e (item # items) st = processFiles e items (processFile e item st)"

subsection \<open>generateSummary\<close>

definition successful_of :: "result list \<Rightarrow> result list" where
  "successful_of results = filter (\<lambda>r. success r) results"

definition failed_of :: "result list \<Rightarrow> result list" where
  "failed_of results = filter (\<lambda>r. \<not> success r) results"

definition js_opt :: "string option \<Rightarrow> jsval" where
  "js_opt v = (case v of None \<Rightarrow> Undefined | Some s \<Rightarrow> Str s)"

definition summary_head :: "env \<Rightarrow> string" where
  "summary_head e =
     ''# Documentation Summary\<newline>\<newline>'' @ ''Generated: '' @ now_iso e @ ''\<newline>\<newline>''
     @ ''## Statistics\<newline>\<newline>''"

definition summary_lists :: "result list \<Rightarrow> string" where
  "summary_lists results =
     (let successful = successful_of results; failed = failed_of results
      in (if length successful > 0
          then ''## Generated Documentation\<newline>\<newline>''
               @ concat (map (\<lambda>r. ''- '' @ template (js_opt (docPath r)) @ ''\<newline>'') successful)
          else [])
         @ (if length failed > 0
            then ''\<newline>## Failed Files\<newline>\<newline>''
                 @ concat (map (\<lambda>r. ''- '' @ file r @ '': '' @ template (js_opt (error r)) @ ''\<newline>'') failed)
            else []))"

definition summary_text :: "env \<Rightarrow> result list \<Rightarrow> string" where
  "summary_text e results =
     summary_head e
     @ ''- Total files processed: '' @ string_of_nat (length results) @ ''\<newline>''
     @ ''- Successfully documented: '' @ string_of_nat (length (successful_of results)) @ ''\<newline>''
     @ ''- Failed: '' @ string_of_nat (length (failed_of results)) @ ''\<newline>\<newline>''
     @ summary_lists results"

definition generateSummary :: "env \<Rightarrow> effect list \<Rightarrow> result list \<Rightarrow> string option \<times> effect list" where
  "generateSummary e h results =
     (fs_writeFile e h ''Documentation/SUMMARY.md'' (summary_text e results),
      h @ [FsWriteFile ''Documentation/SUMMARY.md'' (summary_text e results)])"

subsection \<open>generateDocumentation\<close>

text \<open>
  The promise of \<^verbatim>\<open>generateDocumentation\<close> resolves, or it rejects with an error
  that the last statement of the script reports before \<^verbatim>\<open>process.exit(1)\<close>.
\<close>

datatype completion = Resolved | Rejected string

record run =
  completion :: completion
  results :: "result list"
  trace :: "effect list"

definition generateDocumentation :: "env \<Rightarrow> run" where
  "generateDocumentation e =
     (let h1 = [FsMkdir ''Documentation'']
      in (case fs_mkdir e [] ''Documentation'' of
            Some msg \<Rightarrow> \<lparr>completion = Rejected msg, results = [], trace = h1\<rparr>
          | None \<Rightarrow>
              (case findSourceFiles e of
                 (Inl msg, t2) \<Rightarrow> \<lparr>completion = Rejected msg, results = [], trace = h1 @ t2\<rparr>
               | (Inr allSourceFiles, t2) \<Rightarrow>
                   let h2 = h1 @ t2
                   in if length allSourceFiles = 0
                      then \<lparr>completion = Resolved, results = [], trace = h2\<rparr>
                      else
                        let (filesToProcess, t3) = getFilesNeedingDocumentation e allSourceFiles;
                            h3 = h2 @ t3
                        in if length filesToProcess = 0
                           then \<lparr>completion = Resolved, results = [], trace = h3\<rparr>
                           else
                             let (rs, h4) = processFiles e filesToProcess ([], h3);
                                 (werr, h5) = generateSummary e h4 rs
                             in (case werr of
                                   Some msg \<Rightarrow> \<lparr>completion = Rejected msg, results = rs, trace = h5\<rparr>
                                 | None \<Rightarrow> \<lparr>completion = Resolved, results = rs, trace = h5\<rparr>))))"

text \<open>The requests sent to the chat-completion client, in order.\<close>

fun api_calls :: "effect list \<Rightarrow> request list" where
  "api_calls [] = []"
| "api_calls (ChatCreate r # h) = r # api_calls h"
| "api_calls (x # h) = api_calls h"

section \<open>The repository synchronisation helper (Sync-GitRepo)\<close>

text \<open>
  The PowerShell function changes the location, prints to the host and starts
  \<^verbatim>\<open>git\<close> three times, all inside one \<^verbatim>\<open>try\<close> block. A statement completes
  normally or raises a terminating error; only the latter leaves the \<^verbatim>\<open>try\<close>
  block. What the world outside answers is again a record of oracles, which see
  the state reached so far.
\<close>

record ps_world =
  location :: string
  host :: "(string \<times> string) list"
  error_stream :: "string list"
  launched :: "string list list"

datatype cmdlet_outcome = Succeeds | NonTerminating string | Terminating string

text \<open>
  A native command runs and exits (its exit code is not looked at), or it runs
  and the shell turns its failure into a terminating error, or it cannot be
  started at all (the program is not found).
\<close>

datatype native_outcome = Exited | ExitedWithError string | NotStarted string

record ps_env =
  set_location :: "ps_world \<Rightarrow> string \<Rightarrow> cmdlet_outcome"
  launch :: "ps_world \<Rightarrow> string list \<Rightarrow> native_outcome"

datatype ps_completion = Normal | Throws string

text \<open>The three kinds of statement the function is written with.\<close>

datatype ps_statement =
    Set_Location string
  | Write_Host string string
  | Native "string list"

fun exec :: "ps_env \<Rightarrow> ps_statement \<Rightarrow> ps_world \<Rightarrow> ps_completion \<times> ps_world" where
  "exec e (Set_Location p) w =
     (case set_location e w p of
        Succeeds \<Rightarrow> (Normal, w\<lparr>location := p\<rparr>)
      | NonTerminating msg \<Rightarrow> (Normal, w\<lparr>error_stream := error_stream w @ [msg]\<rparr>)
      | Terminating msg \<Rightarrow> (Throws msg, w))"
| "exec e (Write_Host line colour) w = (Normal, w\<lparr>host := host w @ [(line, colour)]\<rparr>)"
| "exec e (Native argv) w =
     (case launch e w argv of
        Exited \<Rightarrow> (Normal, w\<lparr>launched := launched w @ [argv]\<rparr>)
      | ExitedWithError msg \<Rightarrow> (Throws msg, w\<lparr>launched := launched w @ [argv]\<rparr>)
      | NotStarted msg \<Rightarrow> (Throws msg, w))"

text \<open>A statement list runs until it ends or a statement raises a terminating error.\<close>

fun block :: "ps_env \<Rightarrow> ps_statement list \<Rightarrow> ps_world \<Rightarrow> ps_completion \<times> ps_world" where
  "block e [] w = (Normal, w)"
| "block e (s # ss) w =
     (case exec e s w of
        (Normal, w') \<Rightarrow> block e ss w'
      | (Throws msg, w') \<Rightarrow> (Throws msg, w'))"

definition try_catch ::
  "ps_env \<Rightarrow> ps_statement list \<Rightarrow> (string \<Rightarrow> ps_statement list) \<Rightarrow> ps_world \<Rightarrow> ps_completion \<times> ps_world" where
  "try_catch e body handler w =
     (case block e body w of
        (Normal, w') \<Rightarrow> (Normal, w')
      | (Throws msg, w') \<Rightarrow> block e (handler msg) w')"

definition sync_try :: "string \<Rightarrow> string \<Rightarrow> ps_statement list" where
  "sync_try RepoPath Branch =
     [Set_Location RepoPath,
      Write_Host ''Fetching latest changes...'' ''Yellow'',
      Native [''git'', ''fetch'', ''origin''],
      Write_Host (''Resetting to origin/'' @ Branch @ ''...'') ''Yellow'',
      Native [''git'', ''reset'', ''--hard'', ''origin/'' @ Branch],
      Write_Host ''Pulling latest changes...'' ''Yellow'',
      Native [''git'', ''pull'', ''origin'', Branch],
      Write_Host ''Repository sync complete!'' ''Green'']"

definition sync_catch :: "string \<Rightarrow> ps_statement list" where
  "sync_catch msg = [Write_Host (''Error syncing repository: '' @ msg) ''Red'']"

text \<open>The parameter \<^verbatim>\<open>$Branch\<close> is \<^const>\<open>None\<close> when the caller does not supply it.\<close>

definition Sync_GitRepo :: "ps_env \<Rightarrow> string \<Rightarrow> string option \<Rightarrow> ps_world \<Rightarrow> ps_completion \<times> ps_world" where
  "Sync_GitRepo e RepoPath BranchArg w =
     (let Branch = (case BranchArg of None \<Rightarrow> ''master'' | Some b \<Rightarrow> b)
      in try_catch e (sync_try RepoPath Branch) sync_catch w)"

text \<open>The native commands a statement list contains, in order.\<close>

fun natives :: "ps_statement list \<Rightarrow> string list list" where
  "natives [] = []"
| "natives (Native argv # ss) = argv # natives ss"
| "natives (s # ss) = natives ss"

section \<open>Auxiliary notions and example runs\<close>

text \<open>
  The paths that \<^verbatim>\<open>glob\<close> returns for the pattern \<^verbatim>\<open>**/*.{...}\<close> are relative
  paths in normal form: slash-separated segments, none of them empty, \<^verbatim>\<open>.\<close> or
  \<^verbatim>\<open>..\<close>.
\<close>

definition plain_segment :: "string \<Rightarrow> bool" where
  "plain_segment s \<longleftrightarrow> s \<noteq> [] \<and> s \<noteq> ''.'' \<and> s \<noteq> ''..''"

definition glob_path :: "string \<Rightarrow> bool" where
  "glob_path p \<longleftrightarrow> list_all plain_segment (split CHR ''/'' p)"

text \<open>The ceilings a request respects.\<close>

definition within_ceilings :: "env \<Rightarrow> request \<Rightarrow> bool" where
  "within_ceilings e r \<longleftrightarrow>
     max_completion_tokens r = 16000
     \<and> (\<exists>f code. length code \<le> 100000 \<and> r = build_request e f code)"

text \<open>
  A run over four source files: \<^verbatim>\<open>a.js\<close> was changed but holds one character,
  \<^verbatim>\<open>b.js\<close> is unchanged and documented, \<^verbatim>\<open>c.py\<close> and \<^verbatim>\<open>d.go\<close> lack
  documentation. The first request is answered, every later one fails.
\<close>

definition example_env :: env where
  "example_env =
     \<lparr>AZURE_OPENAI_DEPLOYMENT = None, DOC_TYPE = None, FORCE_ALL = None,
      execSync = (\<lambda>cmd. Inr ''a.js\<newline>''),
      fs_access = (\<lambda>p. p = ''Documentation/b.md''),
      glob = (\<lambda>ps. Inr [''a.js'', ''b.js'', ''c.py'', ''d.go'']),
      fs_readFile = (\<lambda>h f. if f = ''a.js'' then Inr ''x''
                            else if f = ''c.py'' then Inr ''print(1234567)''
                            else if f = ''d.go'' then Inr ''package main\<newline>''
                            else Inl ''ENOENT''),
      fs_mkdir = (\<lambda>h p. None),
      fs_writeFile = (\<lambda>h p c. None),
      chat_create = (\<lambda>h r. if api_calls h = [] then ApiResult [Some ''# doc''] else ApiError ''429''),
      now_iso = ''2025-01-01T00:00:00.000Z''\<rparr>"

text \<open>The same with every file holding 100001 characters, and with force mode on.\<close>

definition large_env :: env where
  "large_env = example_env\<lparr>fs_readFile := (\<lambda>h f. Inr (replicate 100001 CHR ''a''))\<rparr>"

definition forced_env :: env where
  "forced_env = example_env\<lparr>FORCE_ALL := Some ''true''\<rparr>"

definition example_results :: "result list" where
  "example_results =
     [success_record ''c.py'' ''Documentation/c.md'',
      failure_record ''d.go'' ''No documentation generated'']"

text \<open>A shell where everything works, and one where \<^verbatim>\<open>git\<close> is not installed.\<close>

definition ps_start :: ps_world where
  "ps_start = \<lparr>location = ''C:/'', host = [], error_stream = [], launched = []\<rparr>"

definition ps_ok :: ps_env where
  "ps_ok = \<lparr>set_location = (\<lambda>w p. Succeeds), launch = (\<lambda>w argv. Exited)\<rparr>"

definition ps_no_git :: ps_env where
  "ps_no_git = \<lparr>set_location = (\<lambda>w p. Succeeds),
                 launch = (\<lambda>w argv. NotStarted ''The term git is not recognized'')\<rparr>"

text \<open>
  \<^verbatim>\<open>git diff --name-only HEAD~1 HEAD\<close> belongs to git, not to the repository; it
  is modelled after git as far as the script depends on it. The command fails
  when \<^verbatim>\<open>HEAD~1\<close> is not in the local clone (a first commit, a clone of depth
  one). Otherwise it prints the paths that differ between the two revisions, one
  per line; a path with a control character, a double quote, a backslash or a
  byte from 0x7F on is printed C-quoted, between double quotes.
\<close>

record repository =
  changed_paths :: "string list"
  parent_fetched :: bool











section \<open>Facts about the model\<close>

lemmas run_defs =
  generateDocumentation_def findSourceFiles_def getFilesNeedingDocumentation_def forceAll_def
  getChangedFiles_def git_diff_command_def trim_def js_whitespace_def select_docPath_def
  select_alternatives_def path_join_def path_normalize_def Let_def processFile_def analyzeCode_def
  store_documentation_def write_docPath_def write_alternatives_def path_dirname_def
  generateSummary_def build_request_def

subsection \<open>Splitting and joining paths\<close>

lemma split_not_Nil: "split sep s \<noteq> []"
  by (induction s) (auto split: list.splits)

lemma split_append_plain:
  "sep \<notin> set b \<Longrightarrow> split sep (a @ b) = butlast (split sep a) @ [last (split sep a) @ b]"
proof (induction a)
  case Nil
  then show ?case
  proof (induction b)
    case Nil
    then show ?case by simp
  next
    case (Cons c b)
    then show ?case by (auto split: list.splits)
  qed
next
  case (Cons c a)
  then show ?case
    using split_not_Nil [of sep a]
    by (cases "split sep a") (auto split: list.splits)
qed

lemma split_prefix_sep:
  "sep \<notin> set a \<Longrightarrow> split sep (a @ sep # cs) = a # split sep cs"
  by (induction a) (auto split: list.splits)

lemma join_Cons: "xs \<noteq> [] \<Longrightarrow> join_with sep (x # xs) = x @ sep @ join_with sep xs"
  by (cases xs) simp_all

lemma join_split: "join_with [sep] (split sep s) = s"
proof (induction s)
  case Nil
  then show ?case by simp
next
  case (Cons c s)
  show ?case
  proof (cases "split sep s")
    case Nil
    then show ?thesis using split_not_Nil [of sep s] by simp
  next
    case (Cons x xs)
    with Cons.IH show ?thesis
      by (cases xs) auto
  qed
qed

lemma normalize_plain:
  "list_all plain_segment segs \<Longrightarrow> normalize_segments b kept segs = rev kept @ segs"
  by (induction segs arbitrary: kept) (auto simp: plain_segment_def)

lemma replace_ext_suffix:
  assumes "ext \<in> set alts" and "\<forall>a \<in> set alts. CHR ''.'' \<notin> set a"
  shows "replace_ext alts (stem @ CHR ''.'' # ext) = stem @ ''.md''"
  using assms by (induction stem) auto

lemma path_join_Documentation:
  assumes "glob_path p" and "last p \<noteq> CHR ''/''"
  shows "path_join [''Documentation'', p] = ''Documentation/'' @ p"
proof -
  have ne: "p \<noteq> []"
    using assms by (auto simp: glob_path_def plain_segment_def)
  have segs: "split CHR ''/'' (''Documentation'' @ CHR ''/'' # p) = ''Documentation'' # split CHR ''/'' p"
    by (rule split_prefix_sep) simp
  have all: "list_all plain_segment (''Documentation'' # split CHR ''/'' p)"
    using assms by (simp add: glob_path_def plain_segment_def)
  have q: "join_with ''/'' (normalize_segments True [] (''Documentation'' # split CHR ''/'' p))
             = ''Documentation/'' @ p"
    using normalize_plain [OF all, of True "[]"] join_split [of "CHR ''/''" p]
      split_not_Nil [of "CHR ''/''" p]
    by (simp add: join_Cons)
  have "path_normalize (''Documentation'' @ CHR ''/'' # p) = ''Documentation/'' @ p"
    unfolding path_normalize_def segs using q ne assms(2) by (simp add: Let_def)
  with ne show ?thesis
    by (simp add: path_join_def)
qed

lemma glob_path_md:
  assumes "glob_path (stem @ CHR ''.'' # ext)" and "CHR ''/'' \<notin> set ext"
  shows "glob_path (stem @ ''.md'')"
proof -
  let ?segs = "split CHR ''/'' stem"
  have a: "split CHR ''/'' (stem @ CHR ''.'' # ext) = butlast ?segs @ [last ?segs @ CHR ''.'' # ext]"
    using assms(2) by (intro split_append_plain) simp
  have b: "split CHR ''/'' (stem @ ''.md'') = butlast ?segs @ [last ?segs @ ''.md'']"
    by (intro split_append_plain) simp
  have "plain_segment (last ?segs @ ''.md'')"
    by (auto simp: plain_segment_def append_eq_Cons_conv)
  with assms(1) show ?thesis
    unfolding glob_path_def a b by simp
qed

subsection \<open>The selection loop\<close>










lemma needing_loop_snd:
  "snd (needing_loop e ch fs (acc, tr)) = tr @ map (\<lambda>f. FsAccess (select_docPath f)) fs"
  by (induction fs arbitrary: acc tr) (simp_all add: Let_def)







subsection \<open>The processing loop\<close>

lemma api_calls_append: "api_calls (h @ h') = api_calls h @ api_calls h'"
  by (induction h rule: api_calls.induct) simp_all

lemma api_calls_map_access: "api_calls (map (\<lambda>f. FsAccess (g f)) fs) = []"
  by (induction fs) simp_all

lemma api_calls_needing: "api_calls (snd (getFilesNeedingDocumentation e fs)) = []"
  by (simp add: getFilesNeedingDocumentation_def needing_loop_snd api_calls_append
      api_calls_map_access)

lemma build_request_tokens: "max_completion_tokens (build_request e f code) = 16000"
  by (simp add: build_request_def)

lemma api_calls_processFile:
  "api_calls (snd (processFile e item (rs, h))) =
     api_calls h @
     (case fs_readFile e h (file item) of
        Inl msg \<Rightarrow> []
      | Inr contents \<Rightarrow>
          if length contents < 10 \<or> 200000 < length contents then []
          else [build_request e (file item)
                  (if 100000 < length contents then take 100000 contents else contents)])"
  by (simp add: processFile_def analyzeCode_def store_documentation_def Let_def api_calls_append
      split: sum.splits option.splits prod.splits)

lemma processFile_skip:
  assumes "fs_readFile e h (file item) = Inr contents"
    and "length contents < 10 \<or> 200000 < length contents"
  shows "processFile e item (rs, h) = (rs, h @ [FsReadFile (file item)])"
  using assms by (auto simp: processFile_def)

lemma processFile_records:
  assumes "fs_readFile e h (file item) = Inr contents"
    and "10 \<le> length contents" and "length contents \<le> 200000"
  shows "\<exists>r. fst (processFile e item (rs, h)) = rs @ [r] \<and> file r = file item"
  using assms
  by (auto simp: processFile_def analyzeCode_def store_documentation_def Let_def
      failure_record_def success_record_def
      split: sum.splits option.splits prod.splits)

lemma processFile_no_documentation:
  assumes "fs_readFile e h (file item) = Inr contents"
    and "10 \<le> length contents" and "length contents \<le> 200000"
    and "fst (analyzeCode e (h @ [FsReadFile (file item)]) (file item)
               (if 100000 < length contents then take 100000 contents else contents))
           \<in> {None, Some []}"
  shows "fst (processFile e item (rs, h))
           = rs @ [failure_record (file item) ''No documentation generated'']"
  using assms
  by (auto simp: processFile_def Let_def split: sum.splits option.splits prod.splits)

lemma analyzeCode_error:
  "chat_create e h (build_request e f code) = ApiError msg \<Longrightarrow> fst (analyzeCode e h f code) = None"
  by (simp add: analyzeCode_def)

lemma processFile_ceilings:
  assumes "\<forall>r \<in> set (api_calls h). within_ceilings e r"
  shows "\<forall>r \<in> set (api_calls (snd (processFile e item (rs, h)))). within_ceilings e r"
proof -
  have ok: "within_ceilings e (build_request e f code)" if "length code \<le> 100000" for f code
    unfolding within_ceilings_def using that by (auto simp: build_request_tokens)
  show ?thesis
    using assms by (auto simp: api_calls_processFile split: sum.splits intro!: ok)
qed

lemma processFiles_ceilings:
  assumes "\<forall>r \<in> set (api_calls (snd st)). within_ceilings e r"
  shows "\<forall>r \<in> set (api_calls (snd (processFiles e items st))). within_ceilings e r"
  using assms
proof (induction items arbitrary: st)
  case Nil
  then show ?case by simp
next
  case (Cons item items)
  obtain rs h where st: "st = (rs, h)" by (cases st)
  from Cons.prems have "\<forall>r \<in> set (api_calls (snd (processFile e item st))). within_ceilings e r"
    unfolding st using processFile_ceilings [of h e item rs] by simp
  then show ?case
    using Cons.IH by simp
qed

lemma processFiles_ceilings_start:
  assumes "api_calls h = []" and "r \<in> set (api_calls (snd (processFiles e items ([], h))))"
  shows "within_ceilings e r"
  using processFiles_ceilings [of "([], h)" e items] assms by simp

lemma run_ceilings:
  "\<forall>r \<in> set (api_calls (trace (generateDocumentation e))). within_ceilings e r"
proof (cases "fs_mkdir e [] ''Documentation''")
  case (Some msg)
  then show ?thesis by (simp add: generateDocumentation_def)
next
  case None
  show ?thesis
  proof (cases "glob e patterns")
    case (Inl msg)
    with None show ?thesis by (simp add: generateDocumentation_def findSourceFiles_def)
  next
    case (Inr allSourceFiles)
    let ?h3 = "[FsMkdir ''Documentation'', Glob patterns]
                 @ snd (getFilesNeedingDocumentation e allSourceFiles)"
    let ?items = "fst (getFilesNeedingDocumentation e allSourceFiles)"
    have h3: "api_calls ?h3 = []"
      by (simp add: api_calls_append api_calls_needing)
    have loop: "\<forall>r \<in> set (api_calls (snd (processFiles e ?items ([], ?h3)))). within_ceilings e r"
      using processFiles_ceilings_start [OF h3] by blast
    show ?thesis
      using None Inr loop h3
      by (auto simp: generateDocumentation_def findSourceFiles_def Let_def case_prod_beta
          generateSummary_def api_calls_append split: option.splits)
  qed
qed

subsection \<open>The fallback of the prompt lookup\<close>

lemma docType_default: "DOC_TYPE e = None \<Longrightarrow> docType e = ''all''"
  by (simp add: docType_def env_or_def)

lemma prompt_slot_fallback:
  assumes "docType e \<notin> {''api'', ''codeComments'', ''readme'', ''architecture''}"
    and "docType e \<notin> {''constructor'', ''__proto__''} \<union> set object_prototype_names"
  shows "prompt_slot e = js_get prompts ''api''"
  using assms
  by (simp add: prompt_slot_def js_get_def prompts_def object_prototype_get_def js_or_def)

subsection \<open>Statement lists of the shell\<close>

lemma natives_Cons: "natives (s # ss) = natives [s] @ natives ss"
  by (cases s) simp_all

lemma exec_launched:
  "exec e s w = (c, w') \<Longrightarrow>
     launched w' = launched w @ natives [s] \<or> (c \<noteq> Normal \<and> launched w' = launched w)"
  by (cases s) (auto split: cmdlet_outcome.splits native_outcome.splits)

lemma block_launched_normal:
  "block e ss w = (Normal, w') \<Longrightarrow> launched w' = launched w @ natives ss"
proof (induction ss arbitrary: w)
  case Nil
  then show ?case by simp
next
  case (Cons s ss)
  obtain c w1 where s: "exec e s w = (c, w1)" by (cases "exec e s w")
  with Cons.prems have c: "c = Normal" and rest: "block e ss w1 = (Normal, w')"
    by (auto split: ps_completion.splits)
  from exec_launched [OF s] c have "launched w1 = launched w @ natives [s]" by simp
  with Cons.IH [OF rest] show ?case
    by (simp add: natives_Cons [of s ss])
qed

lemma block_launched_prefix:
  "block e ss w = (c, w') \<Longrightarrow> \<exists>k. launched w' = launched w @ take k (natives ss)"
proof (induction ss arbitrary: w)
  case Nil
  then show ?case by simp
next
  case (Cons s ss)
  obtain c1 w1 where s: "exec e s w = (c1, w1)" by (cases "exec e s w")
  show ?case
  proof (cases c1)
    case Normal
    with s Cons.prems have rest: "block e ss w1 = (c, w')" by simp
    from exec_launched [OF s] Normal have l1: "launched w1 = launched w @ natives [s]" by simp
    from Cons.IH [OF rest] obtain k where "launched w' = launched w1 @ take k (natives ss)" ..
    with l1 have "launched w' = launched w @ take (length (natives [s]) + k) (natives (s # ss))"
      by (simp add: natives_Cons [of s ss])
    then show ?thesis ..
  next
    case (Throws msg)
    with s Cons.prems have w': "w' = w1" by simp
    from exec_launched [OF s] have
      "launched w1 = launched w @ take (length (natives [s])) (natives (s # ss))
       \<or> launched w1 = launched w @ take 0 (natives (s # ss))"
      by (auto simp: natives_Cons [of s ss])
    with w' show ?thesis by blast
  qed
qed

lemma handler_launched: "launched (snd (block e (sync_catch msg) w)) = launched w"
  by (simp add: sync_catch_def)

lemma take_three: "take k [a, b, c] \<in> {[], [a], [a, b], [a, b, c]}"
proof -
  have "k = 0 \<or> k = 1 \<or> k = 2 \<or> 3 \<le> k" by arith
  then show ?thesis by (auto simp: take_Cons')
qed

lemma natives_sync_try:
  "natives (sync_try RepoPath Branch) =
     [[''git'', ''fetch'', ''origin''], [''git'', ''reset'', ''--hard'', ''origin/'' @ Branch],
      [''git'', ''pull'', ''origin'', Branch]]"
  by (simp add: sync_try_def)

section \<open>Properties of the two programs\<close>

subsection \<open>C1: files below or above the size limits\<close>

text \<open>
  C1, as the code has it: when a selected file is read and its content is shorter
  than 10 or longer than 200000 characters, the iteration ends at \<^verbatim>\<open>continue\<close>:
  the results list stays as it was and only the read is added to the trace, so
  the file does not reach the summary. A file within the limits for which the
  API call fails or returns nothing usable (\<^verbatim>\<open>analyzeCode\<close> gives null or the
  empty string) is recorded as a failure with the error
  \<^verbatim>\<open>No documentation generated\<close>.
\<close>

theorem skipped_file_not_recorded:
  assumes "fs_readFile e h (file item) = Inr contents"
  shows "(length contents < 10 \<or> 200000 < length contents
            \<longrightarrow> processFile e item (rs, h) = (rs, h @ [FsReadFile (file item)]))
       \<and> (10 \<le> length contents \<and> length contents \<le> 200000
            \<and> fst (analyzeCode e (h @ [FsReadFile (file item)]) (file item)
                      (if 100000 < length contents then take 100000 contents else contents))
                \<in> {None, Some []}
            \<longrightarrow> fst (processFile e item (rs, h))
                  = rs @ [failure_record (file item) ''No documentation generated''])"
  using assms processFile_skip [of e h item contents rs]
    processFile_no_documentation [of e h item contents rs]
  by blast

theorem skipped_file_not_recorded_witness:
  "processFile example_env \<lparr>file = ''a.js'', reason = ''changed''\<rparr> ([], [])
     = ([], [FsReadFile ''a.js''])
   \<and> fst (processFile example_env \<lparr>file = ''d.go'', reason = ''missing-docs''\<rparr>
            ([], [ChatCreate (build_request example_env ''c.py'' ''print(1234567)'')]))
       = [failure_record ''d.go'' ''No documentation generated'']"
proof -
  have a: "fs_readFile example_env [] (file \<lparr>file = ''a.js'', reason = ''changed''\<rparr>) = Inr ''x''"
    by (simp add: example_env_def)
  have d: "fs_readFile example_env [ChatCreate (build_request example_env ''c.py'' ''print(1234567)'')]
             (file \<lparr>file = ''d.go'', reason = ''missing-docs''\<rparr>)
             = Inr ''package main\<newline>''"
    by (simp add: example_env_def)
  show ?thesis
    using skipped_file_not_recorded [OF a, where rs = "[]"]
      skipped_file_not_recorded [OF d, where rs = "[]"]
    by (simp add: analyzeCode_def example_env_def)
qed

text \<open>
  In the example run \<^verbatim>\<open>a.js\<close> is selected as changed and holds one character;
  no record of the run names it.
\<close>

theorem tiny_file_absent_from_results:
  "\<lparr>file = ''a.js'', reason = ''changed''\<rparr>
      \<in> set (fst (getFilesNeedingDocumentation example_env [''a.js'', ''b.js'', ''c.py'', ''d.go'']))
   \<and> glob example_env patterns = Inr [''a.js'', ''b.js'', ''c.py'', ''d.go'']
   \<and> fs_readFile example_env [] ''a.js'' = Inr ''x''
   \<and> ''a.js'' \<notin> file ` set (results (generateDocumentation example_env))"
  by (simp add: run_defs example_env_def success_record_def failure_record_def)

subsection \<open>C2: the files selected when force mode is off\<close>




subsection \<open>C3: the counts of the summary\<close>

text \<open>
  C3: the summary written for a results list reports, in this order, the length of
  the list, the number of its records with \<^verbatim>\<open>success = true\<close> and the number of
  its records with \<^verbatim>\<open>success = false\<close>; the last two add up to the first.
\<close>

theorem summary_counts:
  "summary_text e rs =
     summary_head e
     @ ''- Total files processed: '' @ string_of_nat (length rs) @ ''\<newline>''
     @ ''- Successfully documented: ''
     @ string_of_nat (card {i. i < length rs \<and> success (rs ! i) = True}) @ ''\<newline>''
     @ ''- Failed: '' @ string_of_nat (card {i. i < length rs \<and> success (rs ! i) = False})
     @ ''\<newline>\<newline>'' @ summary_lists rs
   \<and> card {i. i < length rs \<and> success (rs ! i) = True}
       + card {i. i < length rs \<and> success (rs ! i) = False} = length rs"
proof -
  have s: "length (successful_of rs) = card {i. i < length rs \<and> success (rs ! i) = True}"
    unfolding successful_of_def by (simp add: length_filter_conv_card)
  have f: "length (failed_of rs) = card {i. i < length rs \<and> success (rs ! i) = False}"
    unfolding failed_of_def by (simp add: length_filter_conv_card)
  have t: "length (successful_of rs) + length (failed_of rs) = length rs"
    unfolding successful_of_def failed_of_def by (rule sum_length_filter_compl)
  show ?thesis
    using s f t by (simp add: summary_text_def)
qed

theorem summary_counts_witness:
  "card {i. i < length example_results \<and> success (example_results ! i) = True}
     + card {i. i < length example_results \<and> success (example_results ! i) = False} = 2"
  using summary_counts [of example_env example_results]
  by (simp add: example_results_def)

subsection \<open>C4: the documentation path\<close>

text \<open>
  C4: for a source file path as \<^verbatim>\<open>glob\<close> returns it that ends in a dot and one
  of the recognised extensions, the documentation path is \<^verbatim>\<open>Documentation/\<close>
  followed by the path with that extension replaced by \<^verbatim>\<open>.md\<close>, both where the
  existence of the documentation is checked and where it is written; the two
  places compute the same path for every file name.
\<close>

theorem documentation_path:
  assumes "glob_path f"
    and "ext \<in> set [''js'', ''ts'', ''py'', ''java'', ''go'', ''rs'', ''ps1'', ''psm1'', ''sh'',
                     ''bash'', ''cpp'', ''c'', ''cs'', ''rb'', ''php'', ''kt'', ''swift'', ''yml'',
                     ''yaml'']"
    and "f = stem @ ''.'' @ ext"
  shows "select_docPath f = ''Documentation/'' @ stem @ ''.md''
       \<and> write_docPath f = ''Documentation/'' @ stem @ ''.md''
       \<and> write_docPath p = select_docPath p"
proof -
  have nodot: "\<forall>a \<in> set select_alternatives. CHR ''.'' \<notin> set a"
    by (simp add: select_alternatives_def)
  have ext: "ext \<in> set select_alternatives"
    using assms(2) by (simp add: select_alternatives_def)
  have noslash: "CHR ''/'' \<notin> set ext"
    using assms(2) by auto
  have same: "write_alternatives = select_alternatives"
    by (simp add: write_alternatives_def select_alternatives_def)
  have r: "replace_ext select_alternatives f = stem @ ''.md''"
    using replace_ext_suffix [OF ext nodot, of stem] assms(3) by simp
  have g: "glob_path (stem @ ''.md'')"
    using glob_path_md [of stem ext] assms(1,3) noslash by simp
  have "path_join [''Documentation'', stem @ ''.md''] = ''Documentation/'' @ stem @ ''.md''"
    using path_join_Documentation [OF g] by simp
  with r same show ?thesis
    by (simp add: select_docPath_def write_docPath_def)
qed

theorem documentation_path_witness:
  "select_docPath ''src/unnamed/part.a.ps1'' = ''Documentation/src/unnamed/part.a.md''
   \<and> write_docPath ''src/unnamed/part.a.ps1'' = ''Documentation/src/unnamed/part.a.md''"
proof -
  have g: "glob_path ''src/unnamed/part.a.ps1''"
    by (simp add: glob_path_def plain_segment_def)
  show ?thesis
    using documentation_path [OF g, of "''ps1''" "''src/unnamed/part.a''"] by simp
qed

subsection \<open>C5: one API call for each file within the limits\<close>

text \<open>
  C5, as the code has it: for a selected file whose content was read, the
  iteration leaves the results list and the list of API calls as they were
  exactly when the content is shorter than 10 or longer than 200000 characters;
  in every other case it issues exactly one API call. A selected file whose read
  throws is recorded as a failure with the message of the error, and no API call
  is made for it.
\<close>

theorem one_call_per_processed_file:
  "(fs_readFile e h (file item) = Inr contents \<longrightarrow>
      (fst (processFile e item (rs, h)) = rs
         \<and> api_calls (snd (processFile e item (rs, h))) = api_calls h
         \<longleftrightarrow> length contents < 10 \<or> 200000 < length contents)
      \<and> length (api_calls (snd (processFile e item (rs, h))))
          = length (api_calls h)
            + (if length contents < 10 \<or> 200000 < length contents then 0 else 1))
   \<and> (fs_readFile e h (file item) = Inl msg \<longrightarrow>
        processFile e item (rs, h)
          = (rs @ [failure_record (file item) msg], h @ [FsReadFile (file item)]))"
proof (intro conjI impI)
  assume "fs_readFile e h (file item) = Inl msg"
  then show "processFile e item (rs, h)
          = (rs @ [failure_record (file item) msg], h @ [FsReadFile (file item)])"
    by (simp add: processFile_def Let_def)
next
  assume read: "fs_readFile e h (file item) = Inr contents"
  show "fst (processFile e item (rs, h)) = rs
         \<and> api_calls (snd (processFile e item (rs, h))) = api_calls h
         \<longleftrightarrow> length contents < 10 \<or> 200000 < length contents"
  proof (cases "length contents < 10 \<or> 200000 < length contents")
    case True
    with read show ?thesis
      using processFile_skip [of e h item contents rs] by (simp add: api_calls_append)
  next
    case False
    then obtain r where "fst (processFile e item (rs, h)) = rs @ [r]"
      using processFile_records [of e h item contents rs] read by auto
    with False show ?thesis by simp
  qed
  from read show "length (api_calls (snd (processFile e item (rs, h))))
          = length (api_calls h)
            + (if length contents < 10 \<or> 200000 < length contents then 0 else 1)"
    by (simp add: api_calls_processFile)
qed

theorem one_call_per_processed_file_witness:
  "length (api_calls (snd (processFile example_env \<lparr>file = ''c.py'', reason = ''missing-docs''\<rparr> ([], [])))) = 1
   \<and> length (api_calls (snd (processFile example_env \<lparr>file = ''a.js'', reason = ''changed''\<rparr> ([], [])))) = 0
   \<and> processFile example_env \<lparr>file = ''gone.js'', reason = ''missing-docs''\<rparr> ([], [])
       = ([failure_record ''gone.js'' ''ENOENT''], [FsReadFile ''gone.js''])"
proof -
  have a: "fs_readFile example_env [] (file \<lparr>file = ''a.js'', reason = ''changed''\<rparr>) = Inr ''x''"
    by (simp add: example_env_def)
  have c: "fs_readFile example_env [] (file \<lparr>file = ''c.py'', reason = ''missing-docs''\<rparr>)
             = Inr ''print(1234567)''"
    by (simp add: example_env_def)
  have g: "fs_readFile example_env [] (file \<lparr>file = ''gone.js'', reason = ''missing-docs''\<rparr>)
             = Inl ''ENOENT''"
    by (simp add: example_env_def)
  show ?thesis
    using a c g
      one_call_per_processed_file [of example_env "[]" "\<lparr>file = ''a.js'', reason = ''changed''\<rparr>"
        "''x''" "[]" "''ENOENT''"]
      one_call_per_processed_file [of example_env "[]" "\<lparr>file = ''c.py'', reason = ''missing-docs''\<rparr>"
        "''print(1234567)''" "[]" "''ENOENT''"]
      one_call_per_processed_file [of example_env "[]" "\<lparr>file = ''gone.js'', reason = ''missing-docs''\<rparr>"
        "''x''" "[]" "''ENOENT''"]
    by simp
qed

text \<open>
  A selected file that cannot be read is neither below nor above the limits, and
  no API call is made for it.
\<close>

theorem unreadable_file_makes_no_call:
  "fs_readFile example_env [] ''gone.js'' = Inl ''ENOENT''
   \<and> api_calls (snd (processFile example_env \<lparr>file = ''gone.js'', reason = ''missing-docs''\<rparr> ([], []))) = []
   \<and> fst (processFile example_env \<lparr>file = ''gone.js'', reason = ''missing-docs''\<rparr> ([], []))
       = [failure_record ''gone.js'' ''ENOENT'']"
  by (simp add: processFile_def Let_def example_env_def)

subsection \<open>C6: the ceilings of an API call\<close>

text \<open>
  C6: every request of a run is sent with a completion-token limit of 16000 and
  carries at most 100000 characters of code. For a file within the size limits
  the one request issued carries the first 100000 characters of the content in
  the code section of the user message, which is the whole content when the file
  has at most 100000 characters.
\<close>

theorem api_call_ceilings:
  "(\<forall>r \<in> set (api_calls (trace (generateDocumentation e))).
       max_completion_tokens r = 16000
       \<and> (\<exists>f code. length code \<le> 100000 \<and> r = build_request e f code))
   \<and> (fs_readFile e h (file item) = Inr contents \<and> 10 \<le> length contents \<and> length contents \<le> 200000
        \<longrightarrow> api_calls (snd (processFile e item (rs, h)))
              = api_calls h @ [build_request e (file item) (take 100000 contents)]
            \<and> max_completion_tokens (build_request e (file item) (take 100000 contents)) = 16000
            \<and> content (messages (build_request e (file item) (take 100000 contents)) ! 1)
                = ''File: '' @ file item @ ''\<newline>Language: ''
                  @ template (getLanguage (path_extname (file item))) @ ''\<newline>\<newline>''
                  @ template (prompt_slot e) @ ''\<newline>\<newline>Code:\<newline>```''
                  @ template (getLanguage (path_extname (file item))) @ ''\<newline>''
                  @ take 100000 contents @ ''\<newline>```''
            \<and> (length contents \<le> 100000 \<longrightarrow> take 100000 contents = contents))"
proof -
  have whole: "\<forall>r \<in> set (api_calls (trace (generateDocumentation e))).
       max_completion_tokens r = 16000
       \<and> (\<exists>f code. length code \<le> 100000 \<and> r = build_request e f code)"
    using run_ceilings [of e] by (simp add: within_ceilings_def)
  have one: "api_calls (snd (processFile e item (rs, h)))
              = api_calls h @ [build_request e (file item) (take 100000 contents)]"
    if "fs_readFile e h (file item) = Inr contents" "10 \<le> length contents"
      "length contents \<le> 200000"
    using that by (simp add: api_calls_processFile)
  have msg: "content (messages (build_request e f code) ! 1)
                = ''File: '' @ f @ ''\<newline>Language: ''
                  @ template (getLanguage (path_extname f)) @ ''\<newline>\<newline>''
                  @ template (prompt_slot e) @ ''\<newline>\<newline>Code:\<newline>```''
                  @ template (getLanguage (path_extname f)) @ ''\<newline>''
                  @ code @ ''\<newline>```''" for f code
    by (simp add: build_request_def build_messages_def user_content_def Let_def)
  show ?thesis
    using whole one msg [of "file item" "take 100000 contents"]
    by (simp add: build_request_tokens)
qed

theorem api_call_ceilings_witness:
  "build_request example_env ''c.py'' ''print(1234567)''
      \<in> set (api_calls (trace (generateDocumentation example_env)))
   \<and> max_completion_tokens (build_request example_env ''c.py'' ''print(1234567)'') = 16000
   \<and> api_calls (snd (processFile large_env \<lparr>file = ''big.js'', reason = ''changed''\<rparr> ([], [])))
       = [build_request large_env ''big.js'' (replicate 100000 CHR ''a'')]"
proof -
  have run: "api_calls (trace (generateDocumentation example_env))
               = [build_request example_env ''c.py'' ''print(1234567)'',
                  build_request example_env ''d.go'' ''package main\<newline>'']"
    by (simp add: run_defs example_env_def)
  have big: "fs_readFile large_env [] (file \<lparr>file = ''big.js'', reason = ''changed''\<rparr>)
               = Inr (replicate 100001 CHR ''a'')
             \<and> 10 \<le> length (replicate 100001 CHR ''a'')
             \<and> length (replicate 100001 CHR ''a'') \<le> 200000"
    by (simp add: large_env_def)
  show ?thesis
    using run big
      api_call_ceilings [of example_env "[]" "\<lparr>file = ''big.js'', reason = ''changed''\<rparr>" "[]" "[]"]
      api_call_ceilings [of large_env "[]" "\<lparr>file = ''big.js'', reason = ''changed''\<rparr>"
        "replicate 100001 CHR ''a''" "[]"]
    by simp
qed

subsection \<open>C7: the commands of Sync-GitRepo\<close>

text \<open>
  C7, as the code has it: the commands started by one call are an initial part of
  the sequence fetch from \<^verbatim>\<open>origin\<close>, hard reset to \<^verbatim>\<open>origin/Branch\<close>, pull
  \<^verbatim>\<open>Branch\<close> from \<^verbatim>\<open>origin\<close>, where \<^verbatim>\<open>Branch\<close> is \<^verbatim>\<open>master\<close> when it is not
  supplied; when no statement of the \<^verbatim>\<open>try\<close> block raises a terminating error
  they are exactly these three, in this order.
\<close>

theorem sync_commands:
  "(launched (snd (Sync_GitRepo e RepoPath BranchArg w))
      \<in> {launched w,
         launched w @ [[''git'', ''fetch'', ''origin'']],
         launched w @ [[''git'', ''fetch'', ''origin''],
                       [''git'', ''reset'', ''--hard'',
                        ''origin/'' @ (case BranchArg of None \<Rightarrow> ''master'' | Some b \<Rightarrow> b)]],
         launched w @ [[''git'', ''fetch'', ''origin''],
                       [''git'', ''reset'', ''--hard'',
                        ''origin/'' @ (case BranchArg of None \<Rightarrow> ''master'' | Some b \<Rightarrow> b)],
                       [''git'', ''pull'', ''origin'',
                        (case BranchArg of None \<Rightarrow> ''master'' | Some b \<Rightarrow> b)]]})
   \<and> (fst (block e (sync_try RepoPath (case BranchArg of None \<Rightarrow> ''master'' | Some b \<Rightarrow> b)) w) = Normal
        \<longrightarrow> launched (snd (Sync_GitRepo e RepoPath BranchArg w))
              = launched w @
                [[''git'', ''fetch'', ''origin''],
                 [''git'', ''reset'', ''--hard'',
                  ''origin/'' @ (case BranchArg of None \<Rightarrow> ''master'' | Some b \<Rightarrow> b)],
                 [''git'', ''pull'', ''origin'',
                  (case BranchArg of None \<Rightarrow> ''master'' | Some b \<Rightarrow> b)]])"
proof -
  define B where "B = (case BranchArg of None \<Rightarrow> ''master'' | Some b \<Rightarrow> b)"
  obtain c w1 where body: "block e (sync_try RepoPath B) w = (c, w1)"
    by (cases "block e (sync_try RepoPath B) w")
  have final: "launched (snd (Sync_GitRepo e RepoPath BranchArg w)) = launched w1"
    using body handler_launched [of e _ w1]
    by (simp add: Sync_GitRepo_def try_catch_def B_def split: ps_completion.splits)
  from block_launched_prefix [OF body] obtain k where
    "launched w1 = launched w @ take k (natives (sync_try RepoPath B))" ..
  then have prefix: "launched w1 \<in> {launched w,
         launched w @ [[''git'', ''fetch'', ''origin'']],
         launched w @ [[''git'', ''fetch'', ''origin''],
                       [''git'', ''reset'', ''--hard'', ''origin/'' @ B]],
         launched w @ [[''git'', ''fetch'', ''origin''],
                       [''git'', ''reset'', ''--hard'', ''origin/'' @ B],
                       [''git'', ''pull'', ''origin'', B]]}"
    using take_three [of k "[''git'', ''fetch'', ''origin'']"
        "[''git'', ''reset'', ''--hard'', ''origin/'' @ B]" "[''git'', ''pull'', ''origin'', B]"]
    by (auto simp: natives_sync_try)
  have all: "launched w1 = launched w @ [[''git'', ''fetch'', ''origin''],
                 [''git'', ''reset'', ''--hard'', ''origin/'' @ B], [''git'', ''pull'', ''origin'', B]]"
    if "c = Normal"
    using block_launched_normal [of e "sync_try RepoPath B" w w1] body that
    by (simp add: natives_sync_try)
  show ?thesis
    using final prefix all body unfolding B_def by simp
qed

theorem sync_commands_witness:
  "launched (snd (Sync_GitRepo ps_ok ''C:/repo'' None ps_start))
     = [[''git'', ''fetch'', ''origin''], [''git'', ''reset'', ''--hard'', ''origin/master''],
        [''git'', ''pull'', ''origin'', ''master'']]
   \<and> launched (snd (Sync_GitRepo ps_ok ''C:/repo'' (Some ''main'') ps_start))
     = [[''git'', ''fetch'', ''origin''], [''git'', ''reset'', ''--hard'', ''origin/main''],
        [''git'', ''pull'', ''origin'', ''main'']]"
proof -
  have ok: "fst (block ps_ok (sync_try ''C:/repo'' b) ps_start) = Normal" for b
    by (simp add: sync_try_def ps_ok_def)
  show ?thesis
    using sync_commands [of ps_ok "''C:/repo''" None ps_start]
      sync_commands [of ps_ok "''C:/repo''" "Some ''main''" ps_start] ok
    by (simp add: ps_start_def)
qed

text \<open>
  Where \<^verbatim>\<open>git\<close> cannot be started, the first command raises a terminating error
  and the call starts no command at all.
\<close>

theorem missing_git_starts_nothing:
  "launched (snd (Sync_GitRepo ps_no_git ''C:/repo'' None ps_start)) = []"
  by (simp add: Sync_GitRepo_def try_catch_def sync_try_def sync_catch_def ps_no_git_def
      ps_start_def)

subsection \<open>C8: Sync-GitRepo swallows terminating errors\<close>

text \<open>
  C8: every call of \<^verbatim>\<open>Sync-GitRepo\<close> completes normally. When a statement of the
  \<^verbatim>\<open>try\<close> block raises a terminating error, the state the call returns is the
  state at the error with one more line printed to the host, the message of the
  error after \<^verbatim>\<open>Error syncing repository: \<close>, in red: nothing else is done.
\<close>

theorem sync_swallows_errors:
  "fst (Sync_GitRepo e RepoPath BranchArg w) = Normal
   \<and> (\<forall>msg w'. block e (sync_try RepoPath (case BranchArg of None \<Rightarrow> ''master'' | Some b \<Rightarrow> b)) w
                  = (Throws msg, w')
        \<longrightarrow> snd (Sync_GitRepo e RepoPath BranchArg w)
              = w'\<lparr>host := host w' @ [(''Error syncing repository: '' @ msg, ''Red'')]\<rparr>)"
  by (auto simp: Sync_GitRepo_def try_catch_def sync_catch_def
      split: prod.splits ps_completion.splits)

theorem sync_swallows_errors_witness:
  "Sync_GitRepo ps_no_git ''C:/repo'' None ps_start
     = (Normal,
        \<lparr>location = ''C:/repo'',
         host = [(''Fetching latest changes...'', ''Yellow''),
                 (''Error syncing repository: The term git is not recognized'', ''Red'')],
         error_stream = [], launched = []\<rparr>)"
proof -
  have body: "block ps_no_git (sync_try ''C:/repo'' ''master'') ps_start
     = (Throws ''The term git is not recognized'',
        \<lparr>location = ''C:/repo'', host = [(''Fetching latest changes...'', ''Yellow'')],
         error_stream = [], launched = []\<rparr>)"
    by (simp add: sync_try_def ps_no_git_def ps_start_def)
  show ?thesis
    using sync_swallows_errors [of ps_no_git "''C:/repo''" None ps_start] body
    by (cases "Sync_GitRepo ps_no_git ''C:/repo'' None ps_start") simp
qed

subsection \<open>C9: the prompt for a selector that names no prompt\<close>

text \<open>
  C9 at the selector \<^verbatim>\<open>constructor\<close>, which is none of \<^verbatim>\<open>api\<close>,
  \<^verbatim>\<open>codeComments\<close>, \<^verbatim>\<open>readme\<close> and \<^verbatim>\<open>architecture\<close>: the lookup
  \<^verbatim>\<open>prompts[docType]\<close> finds the property that the object literal inherits, a
  function, which is truthy; the user message then carries the text of that
  function where the \<^verbatim>\<open>api\<close> prompt should stand.
\<close>

theorem inherited_key_prompt:
  "prompt_slot (e\<lparr>DOC_TYPE := Some ''constructor''\<rparr>) = NativeFunction ''Object''
   \<and> prompt_slot (e\<lparr>DOC_TYPE := Some ''constructor''\<rparr>) \<noteq> js_get prompts ''api''
   \<and> user_content (e\<lparr>DOC_TYPE := Some ''constructor''\<rparr>) ''a.js'' code
       = ''File: a.js\<newline>Language: javascript\<newline>\<newline>function Object() { [native code] }\<newline>\<newline>Code:\<newline>```javascript\<newline>''
         @ code @ ''\<newline>```''"
  by (simp add: user_content_def prompt_slot_def docType_def env_or_def js_get_def prompts_def
      object_prototype_get_def js_or_def getLanguage_def langMap_def path_extname_def Let_def)

subsection \<open>C10: force mode\<close>

text \<open>
  C10: when \<^verbatim>\<open>FORCE_ALL\<close> is \<^verbatim>\<open>true\<close>, \<^verbatim>\<open>getFilesNeedingDocumentation\<close> returns every
  input file, in order, with the reason \<^verbatim>\<open>forced\<close>; it runs no diff and checks
  no documentation file (its trace is empty), and its result is the same whatever
  the diff and the file system would answer.
\<close>

theorem forced_selection:
  assumes "FORCE_ALL e = Some ''true''"
  shows "getFilesNeedingDocumentation e allSourceFiles
           = (map (\<lambda>f. \<lparr>file = f, reason = ''forced''\<rparr>) allSourceFiles, [])
       \<and> getFilesNeedingDocumentation (e\<lparr>execSync := diff, fs_access := exists\<rparr>) allSourceFiles
           = getFilesNeedingDocumentation e allSourceFiles"
  using assms by (simp add: getFilesNeedingDocumentation_def forceAll_def)

theorem forced_selection_witness:
  "getFilesNeedingDocumentation forced_env [''a.js'', ''b.js'']
     = ([\<lparr>file = ''a.js'', reason = ''forced''\<rparr>, \<lparr>file = ''b.js'', reason = ''forced''\<rparr>], [])"
proof -
  have on: "FORCE_ALL forced_env = Some ''true''"
    by (simp add: forced_env_def)
  show ?thesis
    using forced_selection [OF on, of "[''a.js'', ''b.js'']"] by simp
qed

end
